theory Spec2Isabelle
  imports Complex_Main "HOL-Library.Word"
begin

section \<open>The model catalogue of GameData\<close>

text \<open>
  \<^verbatim>\<open>GameData.hpp\<close> declares the registry of loaded game data. The only member
  function whose body the header holds is the typed model lookup:
  \<^verbatim>\<open>
  std::unordered_map<ModelID, std::unique_ptr<BaseModelInfo>> modelinfo;

  template <class T>
  T* findModelInfo(ModelID id) {
      auto f = modelinfo.find(id);
      if (f != modelinfo.end() && f->second->type() == T::kType) {
          return static_cast<T*>(f->second.get());
      }
      return nullptr;
  }
  \<close>
  \<^verbatim>\<open>ModelID\<close>, \<^verbatim>\<open>BaseModelInfo\<close> and the enumeration behind \<^verbatim>\<open>type()\<close> and
  \<^verbatim>\<open>T::kType\<close> are declared in headers that are not part of the sources at hand.
  The enumeration of variants is a type parameter \<open>'k\<close> of the model, so nothing
  below depends on which variants exist.
\<close>

text \<open>
  Modelled from the spec: \<^verbatim>\<open>ModelID\<close>, whose declaration is missing: the numeric
  model identifier, the 16-bit unsigned integer that \<^verbatim>\<open>findModelObject\<close> returns.
\<close>

type_synonym ModelID = "16 word"

text \<open>
  Modelled from the spec: \<^verbatim>\<open>BaseModelInfo\<close>, whose declaration is missing: a
  model-info object with its name and the discriminant tag that \<^verbatim>\<open>type()\<close>
  returns. The \<^verbatim>\<open>static_cast<T*>\<close> of the lookup does not change the object
  pointed to, so the model hands the object itself back.
\<close>

record 'k BaseModelInfo =
  name :: string
  type :: 'k

text \<open>
  A \<^verbatim>\<open>std::unique_ptr\<close> either owns an object or is null; the map holds owners,
  so an entry of the map is \<open>Some None\<close> when its owner is null.
\<close>

type_synonym 'k modelinfo_map = "ModelID \<rightharpoonup> 'k BaseModelInfo option"

text \<open>
  The lookup has no throwing operation. The one way it can leave defined behaviour
  is \<^verbatim>\<open>f->second->type()\<close> on an entry whose owner is null (undefined behaviour in
  C++, not an exception); the model makes that outcome a value.
\<close>

datatype fault = NullDereference

definition findModelInfo ::
  "'k modelinfo_map \<Rightarrow> 'k \<Rightarrow> ModelID \<Rightarrow> fault + 'k BaseModelInfo option" where
  "findModelInfo modelinfo kType mid =
     (case modelinfo mid of
        None \<Rightarrow> Inr None
      | Some None \<Rightarrow> Inl NullDereference
      | Some (Some info) \<Rightarrow>
          (if type info = kType then Inr (Some info) else Inr None))"

text \<open>
  Insertions into the catalogue are made by code outside the header, through the
  operations of \<^verbatim>\<open>std::unordered_map\<close>. Both library behaviours are modelled:
  \<^verbatim>\<open>emplace\<close>/\<^verbatim>\<open>insert\<close> keep an entry that is already there,
  \<^verbatim>\<open>insert_or_assign\<close> and assignment through \<^verbatim>\<open>operator[]\<close> replace it.
\<close>

datatype 'k insertion =
    Emplace ModelID "'k BaseModelInfo option"
  | Assign ModelID "'k BaseModelInfo option"

fun insertion_id :: "'k insertion \<Rightarrow> ModelID" where
  "insertion_id (Emplace mid p) = mid"
| "insertion_id (Assign mid p) = mid"

fun apply_insertion :: "'k insertion \<Rightarrow> 'k modelinfo_map \<Rightarrow> 'k modelinfo_map" where
  "apply_insertion (Emplace mid p) modelinfo =
     (case modelinfo mid of None \<Rightarrow> modelinfo(mid \<mapsto> p) | Some q \<Rightarrow> modelinfo)"
| "apply_insertion (Assign mid p) modelinfo = modelinfo(mid \<mapsto> p)"

fun apply_insertions :: "'k insertion list \<Rightarrow> 'k modelinfo_map \<Rightarrow> 'k modelinfo_map" where
  "apply_insertions [] modelinfo = modelinfo"
| "apply_insertions (e # es) modelinfo = apply_insertions es (apply_insertion e modelinfo)"

text \<open>
  Modelled from the spec: the enumeration of variants, whose declaration is missing,
  with the variants the specification names (simple, vehicle, pedestrian, weapon,
  clump). It only instantiates \<open>'k\<close> at concrete inputs.
\<close>

datatype ModelDataType = SimpleInfo | VehicleInfo | PedInfo | WeaponInfo | ClumpInfo

section \<open>Zone lookup by position\<close>

text \<open>
  The header declares \<^verbatim>\<open>ZoneDataList gamezones\<close> and
  \<^verbatim>\<open>ZoneData* findZoneAt(const glm::vec3& pos)\<close>; the body of \<open>findZoneAt\<close> and
  the type \<^verbatim>\<open>ZoneData\<close> are in files that are not part of the sources at hand.
  The definitions of this section follow the specification (sections 3 and 4.4).
\<close>

text \<open>
  Modelled from the spec: \<^verbatim>\<open>glm::vec3\<close>, a world position. Its components are
  floats in the program; the model takes them as real numbers.
\<close>

record vec3 =
  vec_x :: real
  vec_y :: real
  vec_z :: real

text \<open>
  Modelled from the spec: the zone record (\<^verbatim>\<open>ZoneData\<close>, declared in
  \<^verbatim>\<open>data/ZoneData.hpp\<close>, which is missing): a name, a zone-type tag and an
  axis-aligned bound in the plane given by its min and max corner.
\<close>

record ZoneData =
  zone_name :: string
  zone_type :: nat
  min_x :: real
  min_y :: real
  max_x :: real
  max_y :: real

text \<open>
  Modelled from the spec: the containment test of a point against a zone's extent
  (the missing \<^verbatim>\<open>ZoneData\<close> code; the rectangle \<open>[0,0]-[100,100]\<close> of the
  specification is closed).
\<close>

definition containsPoint :: "ZoneData \<Rightarrow> vec3 \<Rightarrow> bool" where
  "containsPoint z pos \<longleftrightarrow>
     min_x z \<le> vec_x pos \<and> vec_x pos \<le> max_x z \<and>
     min_y z \<le> vec_y pos \<and> vec_y pos \<le> max_y z"

text \<open>
  Modelled from the spec: the area of a zone's extent, by which the specification
  ranks the zones that contain a point (nothing of it is in the sources).
\<close>

definition zone_area :: "ZoneData \<Rightarrow> real" where
  "zone_area z = (max_x z - min_x z) * (max_y z - min_y z)"

text \<open>
  Modelled from the spec: whether a zone replaces the candidate found so far (part of
  the missing body of \<open>findZoneAt\<close>). Only a strictly smaller zone does, so of two
  zones of equal area the one loaded first stays.
\<close>

fun more_specific :: "ZoneData \<Rightarrow> ZoneData option \<Rightarrow> bool" where
  "more_specific z None = True"
| "more_specific z (Some best) = (zone_area z < zone_area best)"

text \<open>
  Modelled from the spec: the linear scan of the missing body of \<open>findZoneAt\<close>, over
  the zones in load order, keeping the most specific zone that contains the point.
\<close>

fun scan_zones :: "ZoneData option \<Rightarrow> ZoneData list \<Rightarrow> vec3 \<Rightarrow> ZoneData option" where
  "scan_zones best [] pos = best"
| "scan_zones best (z # zs) pos =
     (if containsPoint z pos \<and> more_specific z best
      then scan_zones (Some z) zs pos
      else scan_zones best zs pos)"

text \<open>
  Modelled from the spec: \<^verbatim>\<open>GameData::findZoneAt\<close>, whose body is missing
  (\<open>findZoneAtPoint\<close> in the specification), over the \<open>gamezones\<close> list.
\<close>

definition findZoneAt :: "ZoneData list \<Rightarrow> vec3 \<Rightarrow> ZoneData option" where
  "findZoneAt gamezones pos = scan_zones None gamezones pos"

text \<open>The two zones of the specification's containment example.\<close>

definition zoneA :: ZoneData where
  "zoneA = \<lparr>zone_name = ''Zone A'', zone_type = 0,
             min_x = 0, min_y = 0, max_x = 100, max_y = 100\<rparr>"

definition zoneB :: ZoneData where
  "zoneB = \<lparr>zone_name = ''Zone B'', zone_type = 0,
             min_x = 10, min_y = 10, max_x = 20, max_y = 20\<rparr>"

section \<open>Texture slots\<close>

text \<open>
  The header declares
  \<^verbatim>\<open>
  std::string currenttextureslot;
  std::unordered_map<std::string, TextureArchive> textureSlots;
  /** Loads the txt slot if it is not already loaded and sets the current TXD slot */
  void loadTXD(const std::string& name);
  TextureArchive loadTextureArchive(const std::string& name);
  TextureData* findSlotTexture(const std::string& slot, const std::string& texture) const;
  \<close>
  without the bodies, and the types \<^verbatim>\<open>TextureArchive\<close> and \<^verbatim>\<open>TextureData\<close> are
  declared in a loader's header that is missing. The definitions of this section follow
  the specification (sections 3 and 4.3) and the comment on \<open>loadTXD\<close>.
\<close>

text \<open>
  Modelled from the spec: a texture image (\<^verbatim>\<open>TextureData\<close>, missing) is a handle, and
  a texture archive (\<^verbatim>\<open>TextureArchive\<close>, missing) an ordered collection of named
  images.
\<close>

type_synonym TextureData = nat

type_synonym TextureArchive = "(string \<times> TextureData) list"

text \<open>
  Modelled from the spec: slot names are case-insensitive; no code for it is in the
  sources. The key of a slot is its name with the ASCII capitals in lower case.
\<close>

definition lower_char :: "char \<Rightarrow> char" where
  "lower_char c =
     (let n = (of_char c :: nat) in if 65 \<le> n \<and> n \<le> 90 then char_of (n + 32) else c)"

definition slot_key :: "string \<Rightarrow> string" where
  "slot_key slot = map lower_char slot"

text \<open>
  Modelled from the spec: the texture slot store, from the members \<open>textureSlots\<close>
  and \<open>currenttextureslot\<close> of the header. \<open>decodes\<close> is not a member: it is the
  specification's decode-call counter, the list of the names handed to
  \<open>loadTextureArchive\<close>, in call order.
\<close>

record TextureSlotStore =
  textureSlots :: "string \<rightharpoonup> TextureArchive"
  currenttextureslot :: string
  decodes :: "string list"

text \<open>Modelled from the spec: the store of a registry that has loaded nothing yet.\<close>

definition no_slots :: TextureSlotStore where
  "no_slots = \<lparr>textureSlots = Map.empty, currenttextureslot = [], decodes = []\<rparr>"

text \<open>
  Modelled from the spec: \<^verbatim>\<open>GameData::loadTXD\<close>, whose body is missing
  (\<open>ensureLoaded\<close> in the specification). A slot that is present is not loaded again;
  otherwise the archive is located and decoded, which is \<open>loadTextureArchive\<close> of the
  header, a parameter here, and stored. Either way the slot becomes the current one.
\<close>

definition loadTXD ::
  "(string \<Rightarrow> TextureArchive) \<Rightarrow> string \<Rightarrow> TextureSlotStore \<Rightarrow> TextureSlotStore" where
  "loadTXD loadTextureArchive slot st =
     (case textureSlots st (slot_key slot) of
        Some loaded \<Rightarrow> st\<lparr>currenttextureslot := slot\<rparr>
      | None \<Rightarrow>
          st\<lparr>textureSlots := (textureSlots st)(slot_key slot \<mapsto> loadTextureArchive slot),
             decodes := decodes st @ [slot],
             currenttextureslot := slot\<rparr>)"

text \<open>
  Modelled from the spec: the slot a query looks into, the current slot when the slot
  name given is empty (part of the missing body of \<open>findSlotTexture\<close>).
\<close>

definition effective_slot :: "TextureSlotStore \<Rightarrow> string \<Rightarrow> string" where
  "effective_slot st slot = (if slot = [] then currenttextureslot st else slot)"

text \<open>
  Modelled from the spec: \<^verbatim>\<open>GameData::findSlotTexture\<close>, whose body is missing
  (\<open>findTexture\<close> in the specification); \<open>None\<close> is the null pointer.
\<close>

definition findSlotTexture ::
  "TextureSlotStore \<Rightarrow> string \<Rightarrow> string \<Rightarrow> TextureData option" where
  "findSlotTexture st slot texture =
     (case textureSlots st (slot_key (effective_slot st slot)) of
        None \<Rightarrow> None
      | Some archive \<Rightarrow> map_of archive texture)"

text \<open>
  Modelled from the spec: the store after a sequence of \<open>loadTXD\<close> calls on a registry
  that had loaded nothing (the calls are made by code that is missing).
\<close>

definition run_loadTXD :: "(string \<Rightarrow> TextureArchive) \<Rightarrow> string list \<Rightarrow> TextureSlotStore" where
  "run_loadTXD loadTextureArchive slots = fold (loadTXD loadTextureArchive) slots no_slots"

text \<open>
  The invariant of the decode log: no slot is decoded twice, and every slot that was
  decoded is present in the store.
\<close>

definition decode_log_ok :: "TextureSlotStore \<Rightarrow> bool" where
  "decode_log_ok st \<longleftrightarrow>
     distinct (map slot_key (decodes st)) \<and>
     slot_key ` set (decodes st) \<subseteq> dom (textureSlots st)"

text \<open>
  An archive source for the specification's example: the archive of the slot
  \<open>vehicles\<close> holds the texture \<open>bumper1\<close>.
\<close>

definition vehicles_txd :: "string \<Rightarrow> TextureArchive" where
  "vehicles_txd slot = (if slot = ''vehicles'' then [(''bumper1'', 5)] else [])"

section \<open>Typed lookup\<close>

lemma apply_insertion_other:
  "insertion_id e \<noteq> mid \<Longrightarrow> apply_insertion e modelinfo mid = modelinfo mid"
  by (cases e) (auto split: option.splits)

lemma apply_insertions_other:
  "\<forall>e \<in> set es. insertion_id e \<noteq> mid \<Longrightarrow> apply_insertions es modelinfo mid = modelinfo mid"
  by (induction es arbitrary: modelinfo) (simp_all add: apply_insertion_other)

lemma apply_insertion_cong:
  "m1 mid = m2 mid \<Longrightarrow> apply_insertion e m1 mid = apply_insertion e m2 mid"
  by (cases e) (auto split: option.splits)

text \<open>
  Claim C1. For every model id and every requested variant, \<open>findModelInfo\<close> returns
  the stored object exactly when the map has an entry at that id that owns an object
  whose tag is the requested one. When the id is absent, or the stored object has
  another tag, it returns the null pointer through an ordinary return. An object it
  returns always carries the requested tag, so the cast is never applied to another
  variant. The lookup leaves defined behaviour only on an entry whose owner is null,
  which is none of the claim's cases.
\<close>

theorem findModelInfo_typed:
  "(findModelInfo modelinfo kType mid = Inr (Some info)
      \<longleftrightarrow> modelinfo mid = Some (Some info) \<and> type info = kType)
   \<and> (modelinfo mid = None \<longrightarrow> findModelInfo modelinfo kType mid = Inr None)
   \<and> (\<forall>stored. modelinfo mid = Some (Some stored) \<and> type stored \<noteq> kType
        \<longrightarrow> findModelInfo modelinfo kType mid = Inr None)
   \<and> (\<forall>got. findModelInfo modelinfo kType mid = Inr (Some got) \<longrightarrow> type got = kType)
   \<and> (findModelInfo modelinfo kType mid = Inl NullDereference
        \<longleftrightarrow> modelinfo mid = Some None)"
  by (auto simp: findModelInfo_def split: option.splits)

theorem findModelInfo_typed_witness:
  "findModelInfo (Map.empty(42 \<mapsto> Some \<lparr>name = ''taxi'', type = VehicleInfo\<rparr>)) PedInfo 42
     = Inr None
   \<and> findModelInfo (Map.empty(42 \<mapsto> Some \<lparr>name = ''taxi'', type = VehicleInfo\<rparr>)) VehicleInfo 42
     = Inr (Some \<lparr>name = ''taxi'', type = VehicleInfo\<rparr>)
   \<and> findModelInfo (Map.empty(42 \<mapsto> Some \<lparr>name = ''taxi'', type = VehicleInfo\<rparr>)) VehicleInfo 7
     = Inr None"
  using
    findModelInfo_typed [of "Map.empty(42 \<mapsto> Some \<lparr>name = ''taxi'', type = VehicleInfo\<rparr>)"
      PedInfo 42 "\<lparr>name = ''taxi'', type = VehicleInfo\<rparr>"]
    findModelInfo_typed [of "Map.empty(42 \<mapsto> Some \<lparr>name = ''taxi'', type = VehicleInfo\<rparr>)"
      VehicleInfo 42 "\<lparr>name = ''taxi'', type = VehicleInfo\<rparr>"]
    findModelInfo_typed [of "Map.empty(42 \<mapsto> Some \<lparr>name = ''taxi'', type = VehicleInfo\<rparr>)"
      VehicleInfo 7 "\<lparr>name = ''taxi'', type = VehicleInfo\<rparr>"]
  by simp

text \<open>
  Claim C9. The result of \<open>findModelInfo\<close> at an id depends only on the entry stored
  at that id: two catalogues that agree there give the same result, and so inserting
  any number of models at other ids, before or after an insertion \<open>e\<close> (the one at
  the id looked up), changes nothing, whichever of the two insertion behaviours of
  the library each insertion has.
\<close>

theorem findModelInfo_frame:
  "(m1 mid = m2 mid \<longrightarrow> findModelInfo m1 kType mid = findModelInfo m2 kType mid)
   \<and> ((\<forall>u \<in> set before \<union> set after. insertion_id u \<noteq> mid) \<longrightarrow>
        findModelInfo
          (apply_insertions after (apply_insertion e (apply_insertions before modelinfo)))
          kType mid
        = findModelInfo (apply_insertion e modelinfo) kType mid)"
proof (intro conjI impI)
  assume "m1 mid = m2 mid"
  then show "findModelInfo m1 kType mid = findModelInfo m2 kType mid"
    by (simp add: findModelInfo_def)
next
  assume unrelated: "\<forall>u \<in> set before \<union> set after. insertion_id u \<noteq> mid"
  let ?m = "apply_insertions before modelinfo"
  have "apply_insertions after (apply_insertion e ?m) mid = apply_insertion e ?m mid"
    using unrelated by (simp add: apply_insertions_other)
  also have "\<dots> = apply_insertion e modelinfo mid"
  proof (rule apply_insertion_cong)
    show "?m mid = modelinfo mid"
      using unrelated by (simp add: apply_insertions_other)
  qed
  finally show "findModelInfo
      (apply_insertions after (apply_insertion e (apply_insertions before modelinfo)))
      kType mid
    = findModelInfo (apply_insertion e modelinfo) kType mid"
    by (simp add: findModelInfo_def)
qed

theorem findModelInfo_frame_witness:
  "findModelInfo
     (apply_insertions [Assign 9 (Some \<lparr>name = ''cop'', type = PedInfo\<rparr>)]
       (apply_insertion (Emplace 7 (Some \<lparr>name = ''lamp'', type = SimpleInfo\<rparr>))
         (apply_insertions [Emplace 3 (Some \<lparr>name = ''taxi'', type = VehicleInfo\<rparr>)]
           Map.empty)))
     SimpleInfo 7
   = Inr (Some \<lparr>name = ''lamp'', type = SimpleInfo\<rparr>)"
proof -
  have unrelated:
    "\<forall>u \<in> set [Emplace 3 (Some \<lparr>name = ''taxi'', type = VehicleInfo\<rparr>)]
        \<union> set [Assign 9 (Some \<lparr>name = ''cop'', type = PedInfo\<rparr>)]. insertion_id u \<noteq> 7"
    by simp
  have "findModelInfo
          (apply_insertion (Emplace 7 (Some \<lparr>name = ''lamp'', type = SimpleInfo\<rparr>)) Map.empty)
          SimpleInfo 7
        = Inr (Some \<lparr>name = ''lamp'', type = SimpleInfo\<rparr>)"
    by (simp add: findModelInfo_def)
  with unrelated
    findModelInfo_frame [of Map.empty 7 Map.empty SimpleInfo
      "[Emplace 3 (Some \<lparr>name = ''taxi'', type = VehicleInfo\<rparr>)]"
      "[Assign 9 (Some \<lparr>name = ''cop'', type = PedInfo\<rparr>)]"
      "Emplace 7 (Some \<lparr>name = ''lamp'', type = SimpleInfo\<rparr>)" Map.empty]
  show ?thesis by simp
qed

section \<open>Most specific zone\<close>

lemma scan_zones_None:
  "scan_zones best zs pos = None \<longleftrightarrow> best = None \<and> (\<forall>z \<in> set zs. \<not> containsPoint z pos)"
  by (induction zs arbitrary: best) auto

lemma scan_zones_Some:
  "scan_zones best zs pos = Some r \<Longrightarrow>
     (best = Some r \<or> (r \<in> set zs \<and> containsPoint r pos))
     \<and> (\<forall>b. best = Some b \<longrightarrow> zone_area r \<le> zone_area b)
     \<and> (\<forall>z \<in> set zs. containsPoint z pos \<longrightarrow> zone_area r \<le> zone_area z)"
proof (induction zs arbitrary: best)
  case Nil
  then show ?case by simp
next
  case (Cons z zs)
  show ?case
  proof (cases "containsPoint z pos \<and> more_specific z best")
    case True
    with Cons.prems have "scan_zones (Some z) zs pos = Some r" by simp
    from Cons.IH [OF this] True show ?thesis
      by (cases best) (auto simp: less_imp_le)
  next
    case False
    with Cons.prems have "scan_zones best zs pos = Some r" by simp
    from Cons.IH [OF this] False show ?thesis
      by (cases best) force+
  qed
qed

text \<open>
  Claim C3. \<open>findZoneAt\<close> returns no zone exactly when no loaded zone contains the
  position. A zone it returns is a loaded zone that contains the position and whose
  area is the smallest among the loaded zones containing it, so of a nested pair the
  inner zone is returned.
\<close>

theorem findZoneAt_most_specific:
  "(findZoneAt gamezones pos = None \<longleftrightarrow> (\<forall>z \<in> set gamezones. \<not> containsPoint z pos))
   \<and> (\<forall>r. findZoneAt gamezones pos = Some r \<longrightarrow>
         r \<in> set gamezones \<and> containsPoint r pos
         \<and> (\<forall>z \<in> set gamezones. containsPoint z pos \<longrightarrow> zone_area r \<le> zone_area z))"
  using scan_zones_Some [of None gamezones pos]
  by (auto simp: findZoneAt_def scan_zones_None)

text \<open>
  The specification's example: with Zone A over \<open>[0,0]-[100,100]\<close> and Zone B over
  \<open>[10,10]-[20,20]\<close>, the lookup at \<open>(15,15)\<close> gives Zone B and the lookup at
  \<open>(200,200)\<close> gives no zone.
\<close>

theorem findZoneAt_most_specific_witness:
  "findZoneAt [zoneA, zoneB] \<lparr>vec_x = 15, vec_y = 15, vec_z = 0\<rparr> = Some zoneB
   \<and> findZoneAt [zoneA, zoneB] \<lparr>vec_x = 200, vec_y = 200, vec_z = 0\<rparr> = None"
proof -
  let ?p = "\<lparr>vec_x = 15, vec_y = 15, vec_z = 0\<rparr>"
  have inA: "containsPoint zoneA ?p" and inB: "containsPoint zoneB ?p"
    by (simp_all add: containsPoint_def zoneA_def zoneB_def)
  have areas: "\<not> zone_area zoneA \<le> zone_area zoneB"
    by (simp add: zone_area_def zoneA_def zoneB_def)
  from inA findZoneAt_most_specific [of "[zoneA, zoneB]" ?p]
  obtain r where r: "findZoneAt [zoneA, zoneB] ?p = Some r" by auto
  with inB areas findZoneAt_most_specific [of "[zoneA, zoneB]" ?p]
  have "r = zoneB" by auto
  with r have inner: "findZoneAt [zoneA, zoneB] ?p = Some zoneB" by simp
  have outside: "findZoneAt [zoneA, zoneB] \<lparr>vec_x = 200, vec_y = 200, vec_z = 0\<rparr> = None"
    using findZoneAt_most_specific
      [of "[zoneA, zoneB]" "\<lparr>vec_x = 200, vec_y = 200, vec_z = 0\<rparr>"]
    by (simp add: containsPoint_def zoneA_def zoneB_def)
  from inner outside show ?thesis by simp
qed

section \<open>Lazy loading of texture slots\<close>

lemma dom_loadTXD:
  "dom (textureSlots (loadTXD lta slot st)) = insert (slot_key slot) (dom (textureSlots st))"
  by (auto simp: loadTXD_def split: option.splits)

lemma dom_fold_loadTXD:
  "dom (textureSlots (fold (loadTXD lta) slots st))
     = dom (textureSlots st) \<union> slot_key ` set slots"
  by (induction slots arbitrary: st) (auto simp: dom_loadTXD)

lemma decode_log_ok_loadTXD:
  "decode_log_ok st \<Longrightarrow> decode_log_ok (loadTXD lta slot st)"
  by (auto simp: decode_log_ok_def loadTXD_def split: option.splits)

lemma decode_log_ok_fold:
  "decode_log_ok st \<Longrightarrow> decode_log_ok (fold (loadTXD lta) slots st)"
  by (induction slots arbitrary: st) (simp_all add: decode_log_ok_loadTXD)

lemma decode_log_ok_no_slots: "decode_log_ok no_slots"
  by (simp add: decode_log_ok_def no_slots_def)

lemma loadTXD_again:
  "slot_key other = slot_key slot \<Longrightarrow>
   loadTXD lta other (loadTXD lta slot st) = (loadTXD lta slot st)\<lparr>currenttextureslot := other\<rparr>"
  by (simp add: loadTXD_def split: option.splits)

lemma loadTXD_twice: "loadTXD lta slot (loadTXD lta slot st) = loadTXD lta slot st"
  by (simp add: loadTXD_def split: option.splits)

lemma findSlotTexture_fresh:
  "slot \<noteq> [] \<Longrightarrow> textureSlots st (slot_key slot) = None \<Longrightarrow>
   findSlotTexture (loadTXD lta slot st) slot texture = map_of (lta slot) texture"
  by (simp add: findSlotTexture_def loadTXD_def effective_slot_def)

text \<open>
  Claim C6. Let \<open>st\<close> be the store after any sequence \<open>slots\<close> of \<open>loadTXD\<close> calls on
  a registry that had loaded nothing. \<open>findSlotTexture\<close> returns the null pointer when
  the slot it looks into was never loaded, and when the texture is absent from the
  loaded slot. Loading a slot not loaded before makes exactly the textures of its
  archive found. A second \<open>loadTXD\<close> of a slot leaves the store as the first left it
  and adds no decode, under any spelling of the slot's name; and in \<open>st\<close> no slot has
  been decoded more than once.
\<close>

theorem texture_slot_lazy:
  "st = run_loadTXD lta slots \<Longrightarrow>
   (slot_key (effective_slot st slot) \<notin> slot_key ` set slots
      \<longrightarrow> findSlotTexture st slot texture = None)
   \<and> (\<forall>archive. textureSlots st (slot_key (effective_slot st slot)) = Some archive
         \<and> map_of archive texture = None \<longrightarrow> findSlotTexture st slot texture = None)
   \<and> (slot \<noteq> [] \<and> slot_key slot \<notin> slot_key ` set slots
      \<longrightarrow> findSlotTexture (loadTXD lta slot st) slot texture = map_of (lta slot) texture)
   \<and> loadTXD lta slot (loadTXD lta slot st) = loadTXD lta slot st
   \<and> (slot_key other = slot_key slot
      \<longrightarrow> decodes (loadTXD lta other (loadTXD lta slot st)) = decodes (loadTXD lta slot st))
   \<and> distinct (map slot_key (decodes st))"
proof (intro conjI impI allI)
  assume st: "st = run_loadTXD lta slots"
  have dom_st: "dom (textureSlots st) = slot_key ` set slots"
    by (simp add: st run_loadTXD_def dom_fold_loadTXD no_slots_def)
  {
    assume "slot_key (effective_slot st slot) \<notin> slot_key ` set slots"
    with dom_st have "textureSlots st (slot_key (effective_slot st slot)) = None"
      by (metis domIff)
    then show "findSlotTexture st slot texture = None"
      by (simp add: findSlotTexture_def)
  next
    fix archive
    assume "textureSlots st (slot_key (effective_slot st slot)) = Some archive
      \<and> map_of archive texture = None"
    then show "findSlotTexture st slot texture = None"
      by (simp add: findSlotTexture_def)
  next
    assume fresh: "slot \<noteq> [] \<and> slot_key slot \<notin> slot_key ` set slots"
    with dom_st have "textureSlots st (slot_key slot) = None"
      by (metis domIff)
    with fresh show "findSlotTexture (loadTXD lta slot st) slot texture = map_of (lta slot) texture"
      by (simp add: findSlotTexture_fresh)
  next
    show "loadTXD lta slot (loadTXD lta slot st) = loadTXD lta slot st"
      by (rule loadTXD_twice)
  next
    assume "slot_key other = slot_key slot"
    then show "decodes (loadTXD lta other (loadTXD lta slot st)) = decodes (loadTXD lta slot st)"
      by (simp add: loadTXD_again)
  next
    have "decode_log_ok st"
      unfolding st run_loadTXD_def by (rule decode_log_ok_fold) (rule decode_log_ok_no_slots)
    then show "distinct (map slot_key (decodes st))"
      by (simp add: decode_log_ok_def)
  }
qed

text \<open>
  The specification's example: before any load the texture \<open>bumper1\<close> of the slot
  \<open>vehicles\<close> is not found; after one \<open>loadTXD\<close> it is; after a second \<open>loadTXD\<close>
  the decode log still holds the one decode.
\<close>

theorem texture_slot_lazy_witness:
  "findSlotTexture (run_loadTXD vehicles_txd []) ''vehicles'' ''bumper1'' = None
   \<and> findSlotTexture (loadTXD vehicles_txd ''vehicles'' (run_loadTXD vehicles_txd []))
        ''vehicles'' ''bumper1'' = Some 5
   \<and> decodes (loadTXD vehicles_txd ''vehicles''
        (loadTXD vehicles_txd ''vehicles'' (run_loadTXD vehicles_txd []))) = [''vehicles'']"
proof -
  have once: "decodes (loadTXD vehicles_txd ''vehicles'' (run_loadTXD vehicles_txd []))
      = [''vehicles'']"
    by (simp add: run_loadTXD_def no_slots_def loadTXD_def)
  from texture_slot_lazy [of "run_loadTXD vehicles_txd []" vehicles_txd "[]"
      "''vehicles''" "''bumper1''" "''vehicles''"] once
  show ?thesis
    by (simp add: effective_slot_def vehicles_txd_def)
qed

end
